theory Spec2Isabelle
  imports Complex_Main
begin

section \<open>Values of the runtime\<close>

text \<open>
  The protocol error codes the two source files name (\<open>ErrorCode.InternalError\<close>,
  \<open>ErrorCode.MethodNotFound\<close>); a tool may raise a protocol error with any other code.
\<close>

datatype ErrorCode = InternalError | MethodNotFound | OtherCode int

text \<open>
  A JavaScript value as far as the conversion to a string matters: a string, or another
  value (an object, a symbol, ...) of some type \<open>'v\<close>, whose conversion belongs to the
  runtime and can throw.
\<close>

datatype 'v js = Text string | Other 'v

text \<open>
  What a \<open>throw\<close> (or a rejected promise) can carry. The handlers test two things only:
  \<open>error instanceof McpError\<close> and \<open>error instanceof Error\<close>.
  \<^item> \<open>McpError c m\<close> is \<open>new McpError(c, m)\<close>: an \<open>Error\<close> that carries a protocol code;
  \<^item> \<open>JsError msg\<close> is any other \<open>Error\<close> instance, with the value \<open>msg\<close> of its
    \<open>message\<close> field (a string, unless someone stored another value there);
  \<^item> \<open>NonError v\<close> is a thrown value \<open>v\<close> that is no \<open>Error\<close> instance.
\<close>

datatype 'v thrown = McpError ErrorCode string | JsError "'v js" | NonError "'v js"

text \<open>The values \<open>JSON.parse\<close> returns; an object's keys are distinct.\<close>

datatype json =
    JNull
  | JBool bool
  | JNum real
  | JStr string
  | JArr "json list"
  | JObj "(string \<times> json) list"

text \<open>
  What the code takes from its libraries and from the JavaScript runtime:
  the \<open>message\<close> field that the SDK's \<open>McpError\<close> constructor builds from a code and
  a text, \<open>JSON.parse\<close>, \<open>path.join\<close>, the message of the \<open>TypeError\<close> raised by reading
  a property of \<open>null\<close>, and the two conversions of a value that is not a string:
  \<open>String(v)\<close>, and the conversion a template literal applies to \<open>${v}\<close>. Either
  conversion can throw (\<open>String\<close> of an object without a prototype, a symbol in a
  template literal).
\<close>

record 'v runtime =
  mcp_message :: "ErrorCode \<Rightarrow> string \<Rightarrow> string"
  JSON_parse :: "string \<Rightarrow> 'v thrown + json"
  path_join :: "string list \<Rightarrow> string"
  null_read_message :: "string \<Rightarrow> string"
  String :: "'v \<Rightarrow> 'v thrown + string"
  ToString :: "'v \<Rightarrow> 'v thrown + string"

text \<open>
  What \<open>loadConfig\<close> reads from outside: \<open>process.env\<close>, the directory of the module
  (\<open>__dirname\<close>) and the two file-system calls.
\<close>

record 'v world =
  env :: "string \<rightharpoonup> string"
  dirname :: string
  existsSync :: "string \<Rightarrow> bool"
  readFileSync :: "string \<Rightarrow> 'v thrown + string"

text \<open>The observable effects: file-system calls, lines on \<open>console.error\<close>, and the
  construction of the backend service handle.\<close>

datatype 'v effect =
    FsExistsSync string
  | FsReadFileSync string
  | ConsoleError string
  | ConsoleErrorWith string "'v thrown"
  | NewTPService json

section \<open>JavaScript expressions the code uses\<close>

text \<open>\<open>error instanceof McpError\<close>.\<close>

fun instanceof_McpError :: "'v thrown \<Rightarrow> bool" where
  "instanceof_McpError (McpError c m) = True"
| "instanceof_McpError (JsError msg) = False"
| "instanceof_McpError (NonError v) = False"

text \<open>\<open>String(x)\<close>: a string is returned as it is.\<close>

fun String_of :: "'v runtime \<Rightarrow> 'v js \<Rightarrow> 'v thrown + string" where
  "String_of rt (Text s) = Inr s"
| "String_of rt (Other v) = String rt v"

text \<open>The conversion of \<open>${x}\<close> in a template literal.\<close>

fun template :: "'v runtime \<Rightarrow> 'v js \<Rightarrow> 'v thrown + string" where
  "template rt (Text s) = Inr s"
| "template rt (Other v) = ToString rt v"

text \<open>\<open>${error instanceof Error ? error.message : String(error)}\<close>: the text, or what the
  conversion throws. An \<open>McpError\<close> is an \<open>Error\<close>; its message is the string the SDK
  built.\<close>

fun error_text :: "'v runtime \<Rightarrow> 'v thrown \<Rightarrow> 'v thrown + string" where
  "error_text rt (McpError c m) = Inr (mcp_message rt c m)"
| "error_text rt (JsError msg) = template rt msg"
| "error_text rt (NonError v) = String_of rt v"

text \<open>A property read \<open>v.k\<close> on a parsed value that is not \<open>null\<close>, for the two keys the
  code reads (\<open>credentials\<close>, \<open>token\<close>), which no prototype defines: only an object
  can have them. \<open>None\<close> is \<open>undefined\<close>.\<close>

fun get_property :: "json \<Rightarrow> string \<Rightarrow> json option" where
  "get_property (JObj kvs) k = map_of kvs k"
| "get_property v k = None"

text \<open>A value in a boolean context.\<close>

fun truthy :: "json option \<Rightarrow> bool" where
  "truthy None = False"
| "truthy (Some JNull) = False"
| "truthy (Some (JBool b)) = b"
| "truthy (Some (JNum n)) = (n \<noteq> 0)"
| "truthy (Some (JStr s)) = (s \<noteq> [])"
| "truthy (Some (JArr vs)) = True"
| "truthy (Some (JObj kvs)) = True"

text \<open>\<open>config.credentials?.token\<close>: reading \<open>credentials\<close> of \<open>null\<close> throws a
  \<open>TypeError\<close>; the optional chain gives \<open>undefined\<close> when \<open>credentials\<close> is
  \<open>undefined\<close> or \<open>null\<close>.\<close>

definition credentials_token :: "'v runtime \<Rightarrow> json \<Rightarrow> 'v thrown + json option" where
  "credentials_token rt config =
     (if config = JNull then Inl (JsError (Text (null_read_message rt ''credentials'')))
      else (case get_property config ''credentials'' of
              None \<Rightarrow> Inr None
            | Some JNull \<Rightarrow> Inr None
            | Some c \<Rightarrow> Inr (get_property c ''token'')))"

text \<open>The object literal \<open>{ domain: d, credentials: { token: t } }\<close>.\<close>

definition config_literal :: "string \<Rightarrow> string \<Rightarrow> json" where
  "config_literal d t = JObj [(''domain'', JStr d), (''credentials'', JObj [(''token'', JStr t)])]"

text \<open>A message mentions a phrase when the phrase occurs in it
  (\<open>msg.includes(part)\<close>).\<close>

primrec mentions :: "string \<Rightarrow> string \<Rightarrow> bool" where
  "mentions [] part = (part = [])"
| "mentions (c # cs) part = (take (length part) (c # cs) = part \<or> mentions cs part)"

section \<open>loadConfig, with the configuration file (src/server.ts)\<close>

definition no_configuration_message :: string where
  "no_configuration_message =
     ''No configuration found. Please set environment variables (TP_DOMAIN and TP_TOKEN) or create config/targetprocess.json''"

definition token_required_message :: string where
  "token_required_message =
     ''Configuration must provide a Personal Access Token. See https://www.ibm.com/docs/en/targetprocess/tp-dev-hub/saas?topic=v1-authentication for details.''"

definition parse_error_prefix :: string where
  "parse_error_prefix = ''Error parsing config file: ''"

definition configPath :: "'v runtime \<Rightarrow> 'v world \<Rightarrow> string" where
  "configPath rt w = path_join rt [dirname w, ''..'', ''config'', ''targetprocess.json'']"

text \<open>The body of the \<open>try\<close> block: read, parse, validate the token, return the parsed
  value as it is.\<close>

definition read_config :: "'v runtime \<Rightarrow> 'v world \<Rightarrow> string \<Rightarrow> 'v thrown + json" where
  "read_config rt w p =
     (case readFileSync w p of
        Inl e \<Rightarrow> Inl e
      | Inr content \<Rightarrow>
          (case JSON_parse rt content of
             Inl e \<Rightarrow> Inl e
           | Inr config \<Rightarrow>
               (case credentials_token rt config of
                  Inl e \<Rightarrow> Inl e
                | Inr tok \<Rightarrow>
                    if \<not> truthy tok then Inl (McpError InternalError token_required_message)
                    else Inr config)))"

text \<open>The fallback to the file: the existence check, then the \<open>try\<close> block and its
  \<open>catch\<close>, which logs and wraps whatever the block threw. The \<open>catch\<close> builds its
  text first: if that conversion throws, this is what leaves \<open>loadConfig\<close>.\<close>

definition load_config_file :: "'v runtime \<Rightarrow> 'v world \<Rightarrow> 'v effect list \<times> ('v thrown + json)" where
  "load_config_file rt w =
     (let p = configPath rt w in
      if \<not> existsSync w p
      then ([FsExistsSync p, ConsoleError no_configuration_message],
            Inl (McpError InternalError no_configuration_message))
      else (case read_config rt w p of
              Inr config \<Rightarrow> ([FsExistsSync p, FsReadFileSync p], Inr config)
            | Inl error \<Rightarrow>
                (case error_text rt error of
                   Inl thrown_by_conversion \<Rightarrow>
                     ([FsExistsSync p, FsReadFileSync p], Inl thrown_by_conversion)
                 | Inr message \<Rightarrow>
                     ([FsExistsSync p, FsReadFileSync p,
                       ConsoleError (parse_error_prefix @ message)],
                      Inl (McpError InternalError (parse_error_prefix @ message))))))"

definition loadConfig :: "'v runtime \<Rightarrow> 'v world \<Rightarrow> 'v effect list \<times> ('v thrown + json)" where
  "loadConfig rt w =
     (case (env w ''TP_DOMAIN'', env w ''TP_TOKEN'') of
        (Some d, Some t) \<Rightarrow>
          if d \<noteq> [] \<and> t \<noteq> [] then ([], Inr (config_literal d t))
          else load_config_file rt w
      | _ \<Rightarrow> load_config_file rt w)"

section \<open>loadConfig, environment only (the second source file)\<close>

definition environment_required_message :: string where
  "environment_required_message =
     ''TP_DOMAIN and TP_TOKEN must be set in the MCP server environment configuration. '' @
     ''See https://www.ibm.com/docs/en/targetprocess/tp-dev-hub/saas?topic=v1-authentication for token details.''"

definition loadConfig_p0 :: "(string \<rightharpoonup> string) \<Rightarrow> 'v thrown + json" where
  "loadConfig_p0 e =
     (let domain = e ''TP_DOMAIN''; token = e ''TP_TOKEN'' in
      case (domain, token) of
        (Some d, Some t) \<Rightarrow>
          if d = [] \<or> t = [] then Inl (McpError InternalError environment_required_message)
          else Inr (config_literal d t)
      | _ \<Rightarrow> Inl (McpError InternalError environment_required_message))"

section \<open>The tool registry and the two request handlers (src/server.ts)\<close>

text \<open>
  The five tool classes are imported, not defined, by the two source files. A class
  gives a static descriptor (\<open>SearchTool.getDefinition()\<close>: static metadata, so a
  function \<open>getDefinition\<close> from the class to a descriptor of some type \<open>'d\<close>) and
  an instance method \<open>execute\<close>, which works on the shared backend service handle:
  it takes the arguments and the state \<open>'s\<close> of the service, and resolves to a result
  \<open>'r\<close> or rejects, leaving the service in a new state.
\<close>

datatype tool_class =
  SearchTool | GetEntityTool | CreateEntityTool | UpdateEntityTool | InspectObjectTool

type_synonym ('a, 's, 'v, 'r) execute = "'a \<Rightarrow> 's \<Rightarrow> ('v thrown + 'r) \<times> 's"

record ('a, 's, 'v, 'r) tool_instances =
  search :: "('a, 's, 'v, 'r) execute"
  get :: "('a, 's, 'v, 'r) execute"
  create :: "('a, 's, 'v, 'r) execute"
  update :: "('a, 's, 'v, 'r) execute"
  inspect :: "('a, 's, 'v, 'r) execute"

record 'a request_params =
  name :: string
  arguments :: 'a

record 'a request =
  params :: "'a request_params"

record 'd ListToolsResult =
  tools :: "'d list"

record content_item =
  "type" :: string
  "text" :: string

record error_envelope =
  content :: "content_item list"
  isError :: bool

text \<open>What the dispatch handler resolves to: the value a tool returned, as it is, or
  the object literal of the \<open>catch\<close> block.\<close>

datatype 'r CallToolResult = ToolResult 'r | ErrorEnvelope error_envelope

definition ListTools_handler :: "(tool_class \<Rightarrow> 'd) \<Rightarrow> 'd ListToolsResult" where
  "ListTools_handler getDefinition =
     \<lparr>tools = [getDefinition SearchTool,
               getDefinition GetEntityTool,
               getDefinition CreateEntityTool,
               getDefinition UpdateEntityTool,
               getDefinition InspectObjectTool]\<rparr>"

text \<open>The \<open>switch\<close> inside the \<open>try\<close> block.\<close>

definition call_tool_switch ::
  "('a, 's, 'v, 'r) tool_instances \<Rightarrow> 'a request \<Rightarrow> 's \<Rightarrow> ('v thrown + 'r) \<times> 's" where
  "call_tool_switch T request s =
     (if name (params request) = ''search_entities'' then search T (arguments (params request)) s
      else if name (params request) = ''get_entity'' then get T (arguments (params request)) s
      else if name (params request) = ''create_entity'' then create T (arguments (params request)) s
      else if name (params request) = ''update_entity'' then update T (arguments (params request)) s
      else if name (params request) = ''inspect_object'' then inspect T (arguments (params request)) s
      else (Inl (McpError MethodNotFound (''Unknown tool: '' @ name (params request))), s))"

text \<open>The handler: \<open>Inl\<close> is a rejected promise, \<open>Inr\<close> a resolved one. The \<open>catch\<close>
  block builds the text of the envelope inside the \<open>async\<close> function: if the conversion
  throws, the promise is rejected with what it threw.\<close>

definition CallTool_handler ::
  "'v runtime \<Rightarrow> ('a, 's, 'v, 'r) tool_instances \<Rightarrow> 'a request \<Rightarrow> 's
     \<Rightarrow> ('v thrown + 'r CallToolResult) \<times> 's" where
  "CallTool_handler rt T request s =
     (case call_tool_switch T request s of
        (Inr r, s') \<Rightarrow> (Inr (ToolResult r), s')
      | (Inl error, s') \<Rightarrow>
          if instanceof_McpError error then (Inl error, s')
          else (case error_text rt error of
                  Inl thrown_by_conversion \<Rightarrow> (Inl thrown_by_conversion, s')
                | Inr message \<Rightarrow>
                    (Inr (ErrorEnvelope
                       \<lparr>content = [\<lparr>type = ''text'',
                                    text = ''Target Process API error: '' @ message\<rparr>],
                        isError = True\<rparr>), s')))"

definition setupHandlers ::
  "(tool_class \<Rightarrow> 'd) \<Rightarrow> 'v runtime \<Rightarrow> ('a, 's, 'v, 'r) tool_instances
     \<Rightarrow> 'd ListToolsResult \<times> ('a request \<Rightarrow> 's \<Rightarrow> ('v thrown + 'r CallToolResult) \<times> 's)" where
  "setupHandlers getDefinition rt T = (ListTools_handler getDefinition, CallTool_handler rt T)"

section \<open>Start-up (src/server.ts)\<close>

text \<open>
  \<open>initializeCache\<close>: the promise of the service's \<open>initializeEntityTypeCache\<close> is
  awaited inside \<open>try\<close>; a rejection is logged. The result is the outcome of the
  promise \<open>initializeCache\<close> returns, and what it logged.
\<close>

definition initializeCache ::
  "('s \<Rightarrow> ('v thrown + unit) \<times> 's) \<Rightarrow> 's \<Rightarrow> (('v thrown + unit) \<times> 'v effect list) \<times> 's" where
  "initializeCache initializeEntityTypeCache s =
     (case initializeEntityTypeCache s of
        (Inr u, s') \<Rightarrow> ((Inr (), []), s')
      | (Inl error, s') \<Rightarrow> ((Inr (), [ConsoleErrorWith ''Cache initialization error:'' error]), s'))"

text \<open>
  The constructor up to the service handle: \<open>loadConfig\<close>, whose failure leaves the
  constructor at once, then \<open>new TPService(config)\<close>. The tools and the protocol server
  built after it keep a reference to the handle; the warm-up the constructor starts last
  is not awaited and is \<open>initializeCache\<close> above.
\<close>

definition "constructor" ::
  "'v runtime \<Rightarrow> 'v world \<Rightarrow> (json \<Rightarrow> 's) \<Rightarrow> 'v effect list \<times> ('v thrown + 's)" where
  "constructor rt w new_TPService =
     (case loadConfig rt w of
        (fx, Inl e) \<Rightarrow> (fx, Inl e)
      | (fx, Inr config) \<Rightarrow> (fx @ [NewTPService config], Inr (new_TPService config)))"

section \<open>The same parts of the second source file\<close>

definition ListTools_handler_p0 :: "(tool_class \<Rightarrow> 'd) \<Rightarrow> 'd ListToolsResult" where
  "ListTools_handler_p0 getDefinition =
     \<lparr>tools = [getDefinition SearchTool,
               getDefinition GetEntityTool,
               getDefinition CreateEntityTool,
               getDefinition UpdateEntityTool,
               getDefinition InspectObjectTool]\<rparr>"

definition call_tool_switch_p0 ::
  "('a, 's, 'v, 'r) tool_instances \<Rightarrow> 'a request \<Rightarrow> 's \<Rightarrow> ('v thrown + 'r) \<times> 's" where
  "call_tool_switch_p0 T request s =
     (if name (params request) = ''search_entities'' then search T (arguments (params request)) s
      else if name (params request) = ''get_entity'' then get T (arguments (params request)) s
      else if name (params request) = ''create_entity'' then create T (arguments (params request)) s
      else if name (params request) = ''update_entity'' then update T (arguments (params request)) s
      else if name (params request) = ''inspect_object'' then inspect T (arguments (params request)) s
      else (Inl (McpError MethodNotFound (''Unknown tool: '' @ name (params request))), s))"

definition CallTool_handler_p0 ::
  "'v runtime \<Rightarrow> ('a, 's, 'v, 'r) tool_instances \<Rightarrow> 'a request \<Rightarrow> 's
     \<Rightarrow> ('v thrown + 'r CallToolResult) \<times> 's" where
  "CallTool_handler_p0 rt T request s =
     (case call_tool_switch_p0 T request s of
        (Inr r, s') \<Rightarrow> (Inr (ToolResult r), s')
      | (Inl error, s') \<Rightarrow>
          if instanceof_McpError error then (Inl error, s')
          else (case error_text rt error of
                  Inl thrown_by_conversion \<Rightarrow> (Inl thrown_by_conversion, s')
                | Inr message \<Rightarrow>
                    (Inr (ErrorEnvelope
                       \<lparr>content = [\<lparr>type = ''text'',
                                    text = ''Target Process API error: '' @ message\<rparr>],
                        isError = True\<rparr>), s')))"

definition setupHandlers_p0 ::
  "(tool_class \<Rightarrow> 'd) \<Rightarrow> 'v runtime \<Rightarrow> ('a, 's, 'v, 'r) tool_instances
     \<Rightarrow> 'd ListToolsResult \<times> ('a request \<Rightarrow> 's \<Rightarrow> ('v thrown + 'r CallToolResult) \<times> 's)" where
  "setupHandlers_p0 getDefinition rt T =
     (ListTools_handler_p0 getDefinition, CallTool_handler_p0 rt T)"

definition initializeCache_p0 ::
  "('s \<Rightarrow> ('v thrown + unit) \<times> 's) \<Rightarrow> 's \<Rightarrow> (('v thrown + unit) \<times> 'v effect list) \<times> 's" where
  "initializeCache_p0 initializeEntityTypeCache s =
     (case initializeEntityTypeCache s of
        (Inr u, s') \<Rightarrow> ((Inr (), []), s')
      | (Inl error, s') \<Rightarrow> ((Inr (), [ConsoleErrorWith ''Cache initialization error:'' error]), s'))"

definition constructor_p0 ::
  "'v world \<Rightarrow> (json \<Rightarrow> 's) \<Rightarrow> 'v effect list \<times> ('v thrown + 's)" where
  "constructor_p0 w new_TPService =
     (case loadConfig_p0 (env w) of
        Inl e \<Rightarrow> ([], Inl e)
      | Inr config \<Rightarrow> ([NewTPService config], Inr (new_TPService config)))"

section \<open>A concrete runtime, for the examples\<close>

text \<open>The values other than strings that the examples throw: a plain object with its
  own string-valued fields, an object without a prototype, and a symbol with its
  description.\<close>

datatype example_value =
  PlainObject "(string \<times> string) list" | NullPrototypeObject | SymbolValue string

text \<open>The SDK builds the \<open>message\<close> field of an \<open>McpError\<close> as
  \<open>MCP error <code>: <text>\<close>; the examples raise the two named codes only.\<close>

fun code_text :: "ErrorCode \<Rightarrow> string" where
  "code_text InternalError = ''-32603''"
| "code_text MethodNotFound = ''-32601''"
| "code_text (OtherCode n) = ''(other)''"

text \<open>\<open>String(v)\<close> and the template conversion on these values: a plain object gives
  \<open>[object Object]\<close> whatever its fields; an object without a prototype cannot be
  converted; \<open>String\<close> describes a symbol, a template literal refuses it.\<close>

fun example_String :: "example_value \<Rightarrow> example_value thrown + string" where
  "example_String (PlainObject props) = Inr ''[object Object]''"
| "example_String NullPrototypeObject =
     Inl (JsError (Text ''Cannot convert object to primitive value''))"
| "example_String (SymbolValue d) = Inr (''Symbol('' @ d @ '')'')"

fun example_ToString :: "example_value \<Rightarrow> example_value thrown + string" where
  "example_ToString (PlainObject props) = Inr ''[object Object]''"
| "example_ToString NullPrototypeObject =
     Inl (JsError (Text ''Cannot convert object to primitive value''))"
| "example_ToString (SymbolValue d) =
     Inl (JsError (Text ''Cannot convert a Symbol value to a string''))"

text \<open>\<open>JSON.parse\<close> as a table of the file contents the examples read: a file with a
  token and no domain, a file with a domain and no token, an empty object, \<open>null\<close>, and
  an empty file. The table is all the examples need: on a text outside it the function
  does not follow \<open>JSON.parse\<close>, and no example reads one.\<close>

definition example_parse :: "string \<Rightarrow> example_value thrown + json" where
  \<open>example_parse s =
     (if s = ''{"credentials":{"token":"abc"}}''
        then Inr (JObj [(''credentials'', JObj [(''token'', JStr ''abc'')])])
      else if s = ''{"domain":"example"}''
        then Inr (JObj [(''domain'', JStr ''example'')])
      else if s = ''{}'' then Inr (JObj [])
      else if s = ''null'' then Inr JNull
      else if s = [] then Inl (JsError (Text ''Unexpected end of JSON input''))
      else Inl (JsError (Text ''(a text outside the table)'')))\<close>

text \<open>The runtime of the examples: \<open>path.join\<close> resolves the \<open>..\<close> at the module
  directory of the examples (other inputs do not occur there).\<close>

definition example_runtime :: "example_value runtime" where
  "example_runtime =
     \<lparr>mcp_message = (\<lambda>c m. ''MCP error '' @ code_text c @ '': '' @ m),
      JSON_parse = example_parse,
      path_join = (\<lambda>parts. if parts = [''/app/build'', ''..'', ''config'', ''targetprocess.json'']
                              then ''/app/config/targetprocess.json'' else concat parts),
      null_read_message =
        (\<lambda>k. ''Cannot read properties of null (reading '' @ [CHR 0x27] @ k @ [CHR 0x27] @ '')''),
      String = example_String,
      ToString = example_ToString\<rparr>"

text \<open>A module in \<open>/app/build\<close>, an environment \<open>e\<close>, and either no configuration file or
  one with the given content.\<close>

definition example_world :: "(string \<rightharpoonup> string) \<Rightarrow> string option \<Rightarrow> example_value world" where
  "example_world e file =
     \<lparr>env = e,
      dirname = ''/app/build'',
      existsSync = (\<lambda>p. p = ''/app/config/targetprocess.json'' \<and> file \<noteq> None),
      readFileSync = (\<lambda>p. case file of
                            Some c \<Rightarrow> if p = ''/app/config/targetprocess.json'' then Inr c
                                      else Inl (JsError (Text ''ENOENT: no such file or directory''))
                          | None \<Rightarrow> Inl (JsError (Text ''ENOENT: no such file or directory'')))\<rparr>"

text \<open>Five tools over a service whose state counts the reads. \<open>update\<close> throws, by its
  argument: a string, a plain object with a \<open>message\<close> field, an object without a
  prototype, an \<open>Error\<close> whose message is a symbol.\<close>

definition example_tools :: "(nat, nat, example_value, string) tool_instances" where
  "example_tools =
     \<lparr>search = (\<lambda>a s. (Inr ''found'', s)),
      get = (\<lambda>a s. if a = 42 then (Inr ''record 42'', Suc s)
                    else (Inl (JsError (Text ''Not found'')), s)),
      create = (\<lambda>a s. (Inl (McpError (OtherCode (- 32602)) ''Invalid params''), s)),
      update = (\<lambda>a s. if a = 0 then (Inl (NonError (Text ''timeout'')), s)
                       else if a = 1
                         then (Inl (NonError (Other (PlainObject [(''message'', ''boom'')]))), s)
                       else if a = 2 then (Inl (NonError (Other NullPrototypeObject)), s)
                       else (Inl (JsError (Other (SymbolValue ''why''))), s)),
      inspect = (\<lambda>a s. (Inr ''schema'', s))\<rparr>"

definition example_request :: "string \<Rightarrow> nat \<Rightarrow> nat request" where
  "example_request n a = \<lparr>params = \<lparr>name = n, arguments = a\<rparr>\<rparr>"

section \<open>Configuration from the environment\<close>

lemma loadConfig_environment:
  assumes "env w ''TP_DOMAIN'' = Some d" and "env w ''TP_TOKEN'' = Some t"
    and "d \<noteq> []" and "t \<noteq> []"
  shows "loadConfig rt w = ([], Inr (config_literal d t))"
  using assms by (simp add: loadConfig_def)

lemma loadConfig_fallback:
  assumes "env w ''TP_DOMAIN'' \<in> {None, Some []} \<or> env w ''TP_TOKEN'' \<in> {None, Some []}"
  shows "loadConfig rt w = load_config_file rt w"
  using assms by (auto simp: loadConfig_def split: option.splits)

lemma loadConfig_p0_environment:
  assumes "e ''TP_DOMAIN'' = Some d" and "e ''TP_TOKEN'' = Some t"
    and "d \<noteq> []" and "t \<noteq> []"
  shows "loadConfig_p0 e = Inr (config_literal d t)"
  using assms by (simp add: loadConfig_p0_def)

lemma loadConfig_p0_missing:
  assumes "e ''TP_DOMAIN'' \<in> {None, Some []} \<or> e ''TP_TOKEN'' \<in> {None, Some []}"
  shows "loadConfig_p0 e = Inl (McpError InternalError environment_required_message)"
  using assms by (auto simp: loadConfig_p0_def split: option.splits)

text \<open>
  Claim C4. When \<open>TP_DOMAIN\<close> and \<open>TP_TOKEN\<close> are both set and non-empty,
  \<open>loadConfig\<close> returns \<open>{ domain: TP_DOMAIN, credentials: { token: TP_TOKEN } }\<close> with
  the two values as they are, and its list of effects is empty: no file-system call (and
  no log line) happens. The environment-only \<open>loadConfig\<close> of the second source file
  returns the same object; it has no file-system call at all.
\<close>

theorem environment_configuration_verbatim:
  fixes w :: "'v world"
  assumes "env w ''TP_DOMAIN'' = Some d" and "env w ''TP_TOKEN'' = Some t"
    and "d \<noteq> []" and "t \<noteq> []"
  shows "loadConfig rt w =
           ([], Inr (JObj [(''domain'', JStr d), (''credentials'', JObj [(''token'', JStr t)])]))
       \<and> (loadConfig_p0 (env w) :: 'v thrown + json) =
           Inr (JObj [(''domain'', JStr d), (''credentials'', JObj [(''token'', JStr t)])])"
  using loadConfig_environment [OF assms] loadConfig_p0_environment [OF assms]
  by (simp add: config_literal_def)

theorem environment_configuration_verbatim_witness:
  "env (example_world [''TP_DOMAIN'' \<mapsto> ''acme.tpondemand.com'', ''TP_TOKEN'' \<mapsto> ''s3cret''] None)
       ''TP_DOMAIN'' = Some ''acme.tpondemand.com''
   \<and> env (example_world [''TP_DOMAIN'' \<mapsto> ''acme.tpondemand.com'', ''TP_TOKEN'' \<mapsto> ''s3cret''] None)
       ''TP_TOKEN'' = Some ''s3cret''
   \<and> loadConfig example_runtime
        (example_world [''TP_DOMAIN'' \<mapsto> ''acme.tpondemand.com'', ''TP_TOKEN'' \<mapsto> ''s3cret''] None) =
        ([], Inr (JObj [(''domain'', JStr ''acme.tpondemand.com''),
                        (''credentials'', JObj [(''token'', JStr ''s3cret'')])]))
   \<and> (loadConfig_p0 [''TP_DOMAIN'' \<mapsto> ''acme.tpondemand.com'', ''TP_TOKEN'' \<mapsto> ''s3cret'']
        :: example_value thrown + json) =
        Inr (JObj [(''domain'', JStr ''acme.tpondemand.com''),
                   (''credentials'', JObj [(''token'', JStr ''s3cret'')])])"
proof -
  let ?w = "example_world [''TP_DOMAIN'' \<mapsto> ''acme.tpondemand.com'', ''TP_TOKEN'' \<mapsto> ''s3cret''] None"
  have d: "env ?w ''TP_DOMAIN'' = Some ''acme.tpondemand.com''"
    by (simp add: example_world_def)
  have t: "env ?w ''TP_TOKEN'' = Some ''s3cret''"
    by (simp add: example_world_def)
  have e: "env ?w = [''TP_DOMAIN'' \<mapsto> ''acme.tpondemand.com'', ''TP_TOKEN'' \<mapsto> ''s3cret'']"
    by (simp add: example_world_def)
  from environment_configuration_verbatim [OF d t, of example_runtime] d t e
  show ?thesis by simp
qed

section \<open>Configuration from the file\<close>

lemma load_config_file_first_effect:
  "\<exists>rest. fst (load_config_file rt w) = FsExistsSync (configPath rt w) # rest"
  by (simp add: load_config_file_def Let_def split: sum.splits)

lemma load_config_file_missing:
  assumes "\<not> existsSync w (configPath rt w)"
  shows "load_config_file rt w =
           ([FsExistsSync (configPath rt w), ConsoleError no_configuration_message],
            Inl (McpError InternalError no_configuration_message))"
  using assms by (simp add: load_config_file_def Let_def)

text \<open>
  Claim C3, amended. Let \<open>TP_DOMAIN\<close> or \<open>TP_TOKEN\<close> be unset or empty. The
  \<open>loadConfig\<close> of src/server.ts first asks whether the file at
  \<open>path.join(__dirname, '..', 'config', 'targetprocess.json')\<close> exists, a path that depends
  on the module's directory only; when it does not exist, \<open>loadConfig\<close> throws an
  \<open>McpError\<close> with code \<open>InternalError\<close> whose text names both remedies, the
  environment variables and the file to create. The \<open>loadConfig\<close> of the second source
  file has no file fallback: it throws at once, with a text that names the two environment
  variables.
\<close>

theorem missing_environment_falls_back_to_file:
  fixes w :: "'v world"
  assumes "env w ''TP_DOMAIN'' \<in> {None, Some []} \<or> env w ''TP_TOKEN'' \<in> {None, Some []}"
  shows "(\<exists>rest. fst (loadConfig rt w) =
            FsExistsSync (path_join rt [dirname w, ''..'', ''config'', ''targetprocess.json'']) # rest)
       \<and> (\<not> existsSync w (path_join rt [dirname w, ''..'', ''config'', ''targetprocess.json'']) \<longrightarrow>
            snd (loadConfig rt w) = Inl (McpError InternalError no_configuration_message))
       \<and> mentions no_configuration_message ''set environment variables (TP_DOMAIN and TP_TOKEN)''
       \<and> mentions no_configuration_message ''create config/targetprocess.json''
       \<and> (loadConfig_p0 (env w) :: 'v thrown + json) =
            Inl (McpError InternalError environment_required_message)
       \<and> mentions environment_required_message ''TP_DOMAIN and TP_TOKEN must be set''"
proof -
  have fb: "loadConfig rt w = load_config_file rt w"
    using assms by (rule loadConfig_fallback)
  have first: "\<exists>rest. fst (loadConfig rt w) =
      FsExistsSync (path_join rt [dirname w, ''..'', ''config'', ''targetprocess.json'']) # rest"
    using load_config_file_first_effect [of rt w] by (simp add: fb configPath_def)
  have missing: "\<not> existsSync w (path_join rt [dirname w, ''..'', ''config'', ''targetprocess.json'']) \<longrightarrow>
      snd (loadConfig rt w) = Inl (McpError InternalError no_configuration_message)"
    using load_config_file_missing [of w rt] by (simp add: fb configPath_def)
  have m1: "mentions no_configuration_message ''set environment variables (TP_DOMAIN and TP_TOKEN)''"
    by (simp add: no_configuration_message_def)
  have m2: "mentions no_configuration_message ''create config/targetprocess.json''"
    by (simp add: no_configuration_message_def)
  have p0: "(loadConfig_p0 (env w) :: 'v thrown + json) =
      Inl (McpError InternalError environment_required_message)"
    using assms by (rule loadConfig_p0_missing)
  have m3: "mentions environment_required_message ''TP_DOMAIN and TP_TOKEN must be set''"
    by (simp add: environment_required_message_def)
  from first missing m1 m2 p0 m3 show ?thesis by blast
qed

theorem missing_environment_falls_back_to_file_witness:
  "env (example_world [''TP_DOMAIN'' \<mapsto> ''acme.tpondemand.com''] None) ''TP_TOKEN'' = None
   \<and> \<not> existsSync (example_world [''TP_DOMAIN'' \<mapsto> ''acme.tpondemand.com''] None)
         ''/app/config/targetprocess.json''
   \<and> fst (loadConfig example_runtime (example_world [''TP_DOMAIN'' \<mapsto> ''acme.tpondemand.com''] None)) =
        [FsExistsSync ''/app/config/targetprocess.json'', ConsoleError no_configuration_message]
   \<and> snd (loadConfig example_runtime (example_world [''TP_DOMAIN'' \<mapsto> ''acme.tpondemand.com''] None)) =
        Inl (McpError InternalError no_configuration_message)
   \<and> (loadConfig_p0 (env (example_world [''TP_DOMAIN'' \<mapsto> ''acme.tpondemand.com''] None))
        :: example_value thrown + json) =
        Inl (McpError InternalError environment_required_message)"
proof -
  let ?w = "example_world [''TP_DOMAIN'' \<mapsto> ''acme.tpondemand.com''] None"
  have t: "env ?w ''TP_TOKEN'' = None"
    by (simp add: example_world_def)
  then have h: "env ?w ''TP_DOMAIN'' \<in> {None, Some []} \<or> env ?w ''TP_TOKEN'' \<in> {None, Some []}"
    by simp
  have p: "path_join example_runtime [dirname ?w, ''..'', ''config'', ''targetprocess.json''] =
      ''/app/config/targetprocess.json''"
    by (simp add: example_runtime_def example_world_def)
  have x: "\<not> existsSync ?w ''/app/config/targetprocess.json''"
    by (simp add: example_world_def)
  have fx: "fst (loadConfig example_runtime ?w) =
      [FsExistsSync ''/app/config/targetprocess.json'', ConsoleError no_configuration_message]"
    using loadConfig_fallback [OF h, of example_runtime] load_config_file_missing [of ?w example_runtime] x p
    by (simp add: configPath_def)
  from missing_environment_falls_back_to_file [OF h, of example_runtime] t x p fx
  show ?thesis by simp
qed

text \<open>
  Claim C3 as stated fails on the second source file: with an empty environment its
  \<open>loadConfig\<close> throws a text that mentions no configuration file.
\<close>

theorem environment_only_variant_has_no_file_fallback:
  "(loadConfig_p0 Map.empty :: example_value thrown + json) =
      Inl (McpError InternalError environment_required_message)
   \<and> \<not> mentions environment_required_message ''config/targetprocess.json''
   \<and> \<not> mentions environment_required_message ''file''"
  by (simp add: loadConfig_p0_def) (simp add: environment_required_message_def)

section \<open>Dispatch and the normalisation of failures\<close>


lemma CallTool_handler_McpError:
  assumes "call_tool_switch T request s = (Inl (McpError c m), s')"
  shows "CallTool_handler rt T request s = (Inl (McpError c m), s')"
  using assms by (simp add: CallTool_handler_def)

lemma CallTool_handler_other:
  assumes "call_tool_switch T request s = (Inl e, s')" and "\<not> instanceof_McpError e"
    and "error_text rt e = Inr message"
  shows "CallTool_handler rt T request s =
           (Inr (ErrorEnvelope
              \<lparr>content = [\<lparr>type = ''text'', text = ''Target Process API error: '' @ message\<rparr>],
               isError = True\<rparr>), s')"
  using assms by (simp add: CallTool_handler_def)

lemma CallTool_handler_conversion_throws:
  assumes "call_tool_switch T request s = (Inl e, s')" and "\<not> instanceof_McpError e"
    and "error_text rt e = Inl x"
  shows "CallTool_handler rt T request s = (Inl x, s')"
  using assms by (simp add: CallTool_handler_def)

lemma call_tool_switch_unknown:
  assumes "name (params request) \<notin>
             {''search_entities'', ''get_entity'', ''create_entity'', ''update_entity'', ''inspect_object''}"
  shows "call_tool_switch T request s =
           (Inl (McpError MethodNotFound (''Unknown tool: '' @ name (params request))), s)"
  using assms by (simp add: call_tool_switch_def)

text \<open>
  Claim C1, amended. Let the tool execution of a dispatch throw \<open>e\<close> (the \<open>switch\<close> ends
  in \<open>Inl e\<close>). If \<open>e\<close> is an \<open>McpError\<close>, the handler rejects with the same \<open>e\<close>.
  Otherwise the handler converts \<open>e\<close> to a text: the \<open>message\<close> field when \<open>e\<close> is an
  \<open>Error\<close> instance, \<open>String(e)\<close> when it is not, whether or not such a value has a
  message field. When the conversion gives a text, the handler resolves with
  \<open>{ content: [{ type: 'text', text }], isError: true }\<close>, the text being
  \<open>'Target Process API error: '\<close> followed by the converted text; when the conversion
  itself throws, the handler rejects with what it threw. An invocation takes exactly one
  of these paths.
\<close>

theorem thrown_failure_paths:
  assumes "call_tool_switch T request s = (Inl e, s')"
  shows "(\<forall>c m. e = McpError c m \<longrightarrow> CallTool_handler rt T request s = (Inl (McpError c m), s'))
       \<and> (\<forall>m. e = JsError (Text m) \<longrightarrow>
            CallTool_handler rt T request s =
              (Inr (ErrorEnvelope
                 \<lparr>content = [\<lparr>type = ''text'', text = ''Target Process API error: '' @ m\<rparr>],
                  isError = True\<rparr>), s'))
       \<and> (\<forall>v message. e = JsError (Other v) \<and> ToString rt v = Inr message \<longrightarrow>
            CallTool_handler rt T request s =
              (Inr (ErrorEnvelope
                 \<lparr>content = [\<lparr>type = ''text'', text = ''Target Process API error: '' @ message\<rparr>],
                  isError = True\<rparr>), s'))
       \<and> (\<forall>m. e = NonError (Text m) \<longrightarrow>
            CallTool_handler rt T request s =
              (Inr (ErrorEnvelope
                 \<lparr>content = [\<lparr>type = ''text'', text = ''Target Process API error: '' @ m\<rparr>],
                  isError = True\<rparr>), s'))
       \<and> (\<forall>v message. e = NonError (Other v) \<and> String rt v = Inr message \<longrightarrow>
            CallTool_handler rt T request s =
              (Inr (ErrorEnvelope
                 \<lparr>content = [\<lparr>type = ''text'', text = ''Target Process API error: '' @ message\<rparr>],
                  isError = True\<rparr>), s'))
       \<and> (\<forall>v x. e = JsError (Other v) \<and> ToString rt v = Inl x \<longrightarrow>
            CallTool_handler rt T request s = (Inl x, s'))
       \<and> (\<forall>v x. e = NonError (Other v) \<and> String rt v = Inl x \<longrightarrow>
            CallTool_handler rt T request s = (Inl x, s'))
       \<and> (isl (fst (CallTool_handler rt T request s)) \<longleftrightarrow>
            instanceof_McpError e \<or> isl (error_text rt e))"
proof (cases e)
  case (McpError c m)
  with assms show ?thesis by (simp add: CallTool_handler_McpError)
next
  case (JsError msg)
  with assms show ?thesis
    by (cases msg; cases "error_text rt e")
       (simp_all add: CallTool_handler_other CallTool_handler_conversion_throws)
next
  case (NonError v)
  with assms show ?thesis
    by (cases v; cases "error_text rt e")
       (simp_all add: CallTool_handler_other CallTool_handler_conversion_throws)
qed

theorem thrown_failure_paths_witness:
  "call_tool_switch example_tools (example_request ''get_entity'' 7) 0 =
       (Inl (JsError (Text ''Not found'')), 0)
   \<and> CallTool_handler example_runtime example_tools (example_request ''get_entity'' 7) 0 =
       (Inr (ErrorEnvelope
          \<lparr>content = [\<lparr>type = ''text'', text = ''Target Process API error: Not found''\<rparr>],
           isError = True\<rparr>), 0)
   \<and> call_tool_switch example_tools (example_request ''create_entity'' 7) 0 =
       (Inl (McpError (OtherCode (- 32602)) ''Invalid params''), 0)
   \<and> CallTool_handler example_runtime example_tools (example_request ''create_entity'' 7) 0 =
       (Inl (McpError (OtherCode (- 32602)) ''Invalid params''), 0)
   \<and> call_tool_switch example_tools (example_request ''update_entity'' 3) 0 =
       (Inl (JsError (Other (SymbolValue ''why''))), 0)
   \<and> CallTool_handler example_runtime example_tools (example_request ''update_entity'' 3) 0 =
       (Inl (JsError (Text ''Cannot convert a Symbol value to a string'')), 0)"
proof -
  have h1: "call_tool_switch example_tools (example_request ''get_entity'' 7) 0 =
      (Inl (JsError (Text ''Not found'')), 0)"
    by (simp add: call_tool_switch_def example_tools_def example_request_def)
  have h2: "call_tool_switch example_tools (example_request ''create_entity'' 7) 0 =
      (Inl (McpError (OtherCode (- 32602)) ''Invalid params''), 0)"
    by (simp add: call_tool_switch_def example_tools_def example_request_def)
  have h3: "call_tool_switch example_tools (example_request ''update_entity'' 3) 0 =
      (Inl (JsError (Other (SymbolValue ''why''))), 0)"
    by (simp add: call_tool_switch_def example_tools_def example_request_def)
  have c3: "ToString example_runtime (SymbolValue ''why'') =
      Inl (JsError (Text ''Cannot convert a Symbol value to a string''))"
    by (simp add: example_runtime_def)
  have r1: "CallTool_handler example_runtime example_tools (example_request ''get_entity'' 7) 0 =
       (Inr (ErrorEnvelope
          \<lparr>content = [\<lparr>type = ''text'', text = ''Target Process API error: Not found''\<rparr>],
           isError = True\<rparr>), 0)"
    using thrown_failure_paths [OF h1, of example_runtime] by simp
  have r2: "CallTool_handler example_runtime example_tools (example_request ''create_entity'' 7) 0 =
      (Inl (McpError (OtherCode (- 32602)) ''Invalid params''), 0)"
    using thrown_failure_paths [OF h2, of example_runtime] by simp
  have r3: "CallTool_handler example_runtime example_tools (example_request ''update_entity'' 3) 0 =
      (Inl (JsError (Text ''Cannot convert a Symbol value to a string'')), 0)"
    using thrown_failure_paths [OF h3, of example_runtime] c3 by simp
  from h1 h2 h3 r1 r2 r3 show ?thesis by simp
qed

text \<open>
  Claim C1 as stated fails twice. A tool that throws an object without a prototype makes
  the handler reject, with a \<open>TypeError\<close> that is no \<open>McpError\<close>, where the claim has it
  resolve. A tool that throws the plain object \<open>{ message: 'boom' }\<close> gets the text of
  its string form, where the claim has the text derived from the message field.
\<close>

theorem handler_rejects_on_unconvertible_failure:
  "call_tool_switch example_tools (example_request ''update_entity'' 2) 0 =
       (Inl (NonError (Other NullPrototypeObject)), 0)
   \<and> \<not> instanceof_McpError (NonError (Other NullPrototypeObject))
   \<and> CallTool_handler example_runtime example_tools (example_request ''update_entity'' 2) 0 =
       (Inl (JsError (Text ''Cannot convert object to primitive value'')), 0)
   \<and> call_tool_switch example_tools (example_request ''update_entity'' 1) 0 =
       (Inl (NonError (Other (PlainObject [(''message'', ''boom'')]))), 0)
   \<and> CallTool_handler example_runtime example_tools (example_request ''update_entity'' 1) 0 =
       (Inr (ErrorEnvelope
          \<lparr>content = [\<lparr>type = ''text'', text = ''Target Process API error: [object Object]''\<rparr>],
           isError = True\<rparr>), 0)"
  by (simp add: CallTool_handler_def call_tool_switch_def example_tools_def example_request_def
      example_runtime_def)

text \<open>
  Claim C2. A dispatch request whose name is none of \<open>search_entities\<close>, \<open>get_entity\<close>,
  \<open>create_entity\<close>, \<open>update_entity\<close>, \<open>inspect_object\<close> makes the handler reject with an
  \<open>McpError\<close> of code \<open>MethodNotFound\<close> whose text carries the name; the handler does not
  resolve, so it returns no error envelope, and no tool runs (the service state is
  unchanged).
\<close>

theorem unknown_tool_is_method_not_found:
  assumes "name (params request) \<notin>
             {''search_entities'', ''get_entity'', ''create_entity'', ''update_entity'', ''inspect_object''}"
  shows "CallTool_handler rt T request s =
           (Inl (McpError MethodNotFound (''Unknown tool: '' @ name (params request))), s)
       \<and> \<not> (\<exists>envelope. fst (CallTool_handler rt T request s) = Inr (ErrorEnvelope envelope))"
proof -
  have "call_tool_switch T request s =
      (Inl (McpError MethodNotFound (''Unknown tool: '' @ name (params request))), s)"
    using assms by (rule call_tool_switch_unknown)
  then have "CallTool_handler rt T request s =
      (Inl (McpError MethodNotFound (''Unknown tool: '' @ name (params request))), s)"
    by (rule CallTool_handler_McpError)
  then show ?thesis by simp
qed

theorem unknown_tool_is_method_not_found_witness:
  "name (params (example_request ''delete_entity'' 7)) \<notin>
      {''search_entities'', ''get_entity'', ''create_entity'', ''update_entity'', ''inspect_object''}
   \<and> CallTool_handler example_runtime example_tools (example_request ''delete_entity'' 7) 3 =
       (Inl (McpError MethodNotFound ''Unknown tool: delete_entity''), 3)"
proof -
  have h: "name (params (example_request ''delete_entity'' 7)) \<notin>
      {''search_entities'', ''get_entity'', ''create_entity'', ''update_entity'', ''inspect_object''}"
    by (simp add: example_request_def)
  have n: "name (params (example_request ''delete_entity'' 7)) = ''delete_entity''"
    by (simp add: example_request_def)
  from unknown_tool_is_method_not_found [OF h, of example_runtime example_tools 3] h n
  show ?thesis by simp
qed

text \<open>
  Claim C9, amended. When the tool execution throws an \<open>e\<close> that is no \<open>McpError\<close> and
  the conversion of \<open>e\<close> to a text succeeds, the handler resolves with an envelope whose
  one content item has the text \<open>'Target Process API error: '\<close> followed by the converted
  text: the \<open>message\<close> field when \<open>e\<close> is an \<open>Error\<close> instance, \<open>String(e)\<close> when it
  is not (a message field of such a value is not read). The text is never the converted
  text alone.
\<close>

theorem error_text_has_fixed_prefix:
  assumes "call_tool_switch T request s = (Inl e, s')" and "\<not> instanceof_McpError e"
    and "error_text rt e = Inr message"
  shows "CallTool_handler rt T request s =
           (Inr (ErrorEnvelope
              \<lparr>content = [\<lparr>type = ''text'', text = ''Target Process API error: '' @ message\<rparr>],
               isError = True\<rparr>), s')
       \<and> ''Target Process API error: '' @ message \<noteq> message
       \<and> (\<forall>m. e = JsError (Text m) \<longrightarrow> message = m)
       \<and> (\<forall>v. e = JsError (Other v) \<longrightarrow> ToString rt v = Inr message)
       \<and> (\<forall>m. e = NonError (Text m) \<longrightarrow> message = m)
       \<and> (\<forall>v. e = NonError (Other v) \<longrightarrow> String rt v = Inr message)"
  using CallTool_handler_other [OF assms] assms(3) by auto

theorem error_text_has_fixed_prefix_witness:
  "call_tool_switch example_tools (example_request ''update_entity'' 0) 5 =
       (Inl (NonError (Text ''timeout'')), 5)
   \<and> \<not> instanceof_McpError (NonError (Text ''timeout'') :: example_value thrown)
   \<and> error_text example_runtime (NonError (Text ''timeout'')) = Inr ''timeout''
   \<and> CallTool_handler example_runtime example_tools (example_request ''update_entity'' 0) 5 =
       (Inr (ErrorEnvelope
          \<lparr>content = [\<lparr>type = ''text'', text = ''Target Process API error: timeout''\<rparr>],
           isError = True\<rparr>), 5)"
proof -
  have h: "call_tool_switch example_tools (example_request ''update_entity'' 0) 5 =
      (Inl (NonError (Text ''timeout'')), 5)"
    by (simp add: call_tool_switch_def example_tools_def example_request_def)
  have n: "\<not> instanceof_McpError (NonError (Text ''timeout'') :: example_value thrown)"
    by simp
  have c: "error_text example_runtime (NonError (Text ''timeout'')) = Inr ''timeout''"
    by simp
  from error_text_has_fixed_prefix [OF h n c] h c
  show ?thesis by simp
qed

text \<open>
  Claim C9 as stated fails when a tool throws the plain object \<open>{ message: 'boom' }\<close>:
  the value has a message field, and the text of the envelope is the prefix followed by
  the string form \<open>[object Object]\<close>; the message appears nowhere in it.
\<close>

theorem message_field_of_plain_object_is_not_used:
  "call_tool_switch example_tools (example_request ''update_entity'' 1) 0 =
       (Inl (NonError (Other (PlainObject [(''message'', ''boom'')]))), 0)
   \<and> map_of [(''message'', ''boom'')] ''message'' = Some ''boom''
   \<and> CallTool_handler example_runtime example_tools (example_request ''update_entity'' 1) 0 =
       (Inr (ErrorEnvelope
          \<lparr>content = [\<lparr>type = ''text'', text = ''Target Process API error: [object Object]''\<rparr>],
           isError = True\<rparr>), 0)
   \<and> ''Target Process API error: [object Object]'' \<noteq> ''Target Process API error: boom''
   \<and> \<not> mentions ''Target Process API error: [object Object]'' ''boom''"
  by (simp add: CallTool_handler_def call_tool_switch_def example_tools_def example_request_def
      example_runtime_def)

section \<open>Discovery, the warm-up, and the two source files side by side\<close>

text \<open>
  Claim C7. A discovery call returns exactly five descriptors: those of the search, get,
  create, update and inspect tool classes, in this order. The handler has no argument
  and reads no state of the server or of the service (so none of the warm-up): every
  call returns the same list, hence the same identifiers, whatever projection \<open>ident\<close>
  reads the identifier of a descriptor.
\<close>

theorem discovery_returns_five_descriptors:
  "tools (ListTools_handler getDefinition) =
     [getDefinition SearchTool, getDefinition GetEntityTool, getDefinition CreateEntityTool,
      getDefinition UpdateEntityTool, getDefinition InspectObjectTool]
   \<and> length (tools (ListTools_handler getDefinition)) = 5
   \<and> map ident (tools (ListTools_handler getDefinition)) =
     [ident (getDefinition SearchTool), ident (getDefinition GetEntityTool),
      ident (getDefinition CreateEntityTool), ident (getDefinition UpdateEntityTool),
      ident (getDefinition InspectObjectTool)]"
  by (simp add: ListTools_handler_def)



text \<open>
  Claim C10. The discovery handler and the dispatch handler of the two source files are
  equal as functions: the same five descriptors in the same order, the same routing, a
  tool's result returned as it is, and thrown failures classified and normalised alike;
  \<open>initializeCache\<close> is equal too. The two files differ in \<open>loadConfig\<close>: with no
  environment variable set and a configuration file that holds a token, the one of
  src/server.ts returns the file's content and the other one throws.
\<close>

theorem handlers_of_both_files_agree:
  \<open>ListTools_handler_p0 getDefinition = ListTools_handler getDefinition
   \<and> call_tool_switch_p0 T request s = call_tool_switch T request s
   \<and> CallTool_handler_p0 rt T request s = CallTool_handler rt T request s
   \<and> setupHandlers_p0 getDefinition rt T = setupHandlers getDefinition rt T
   \<and> initializeCache_p0 initializeEntityTypeCache s = initializeCache initializeEntityTypeCache s
   \<and> snd (loadConfig example_runtime
             (example_world Map.empty (Some ''{"credentials":{"token":"abc"}}'')))
       \<noteq> loadConfig_p0 (env (example_world Map.empty (Some ''{"credentials":{"token":"abc"}}'')))\<close>
proof -
  have sw: "call_tool_switch_p0 T = call_tool_switch T"
    by (rule ext, rule ext) (simp add: call_tool_switch_p0_def call_tool_switch_def)
  have ct: "CallTool_handler_p0 rt T = CallTool_handler rt T"
    by (rule ext, rule ext) (simp add: CallTool_handler_p0_def CallTool_handler_def sw)
  have lt: "ListTools_handler_p0 getDefinition = ListTools_handler getDefinition"
    by (simp add: ListTools_handler_p0_def ListTools_handler_def)
  have ic: "initializeCache_p0 initializeEntityTypeCache s = initializeCache initializeEntityTypeCache s"
    by (simp add: initializeCache_p0_def initializeCache_def)
  have p0: \<open>loadConfig_p0 (env (example_world Map.empty (Some ''{"credentials":{"token":"abc"}}''))) =
      (Inl (McpError InternalError environment_required_message) :: example_value thrown + json)\<close>
    by (simp add: loadConfig_p0_def example_world_def)
  have ld: \<open>snd (loadConfig example_runtime
                   (example_world Map.empty (Some ''{"credentials":{"token":"abc"}}''))) =
      Inr (JObj [(''credentials'', JObj [(''token'', JStr ''abc'')])])\<close>
    by (simp add: loadConfig_def load_config_file_def read_config_def configPath_def
        credentials_token_def Let_def example_runtime_def example_world_def example_parse_def)
  show ?thesis
    by (simp add: sw ct lt ic setupHandlers_p0_def setupHandlers_def p0 ld)
qed

section \<open>What reaches the backend service handle\<close>

lemma read_config_token:
  assumes "read_config rt w p = Inr config"
  shows "\<exists>tok. credentials_token rt config = Inr tok \<and> truthy tok"
  using assms by (auto simp: read_config_def split: sum.splits if_splits)

lemma load_config_file_token:
  assumes "snd (load_config_file rt w) = Inr config"
  shows "\<exists>tok. credentials_token rt config = Inr tok \<and> truthy tok"
  using assms read_config_token [of rt w "configPath rt w"]
  by (auto simp: load_config_file_def Let_def split: if_splits sum.splits)

lemma config_literal_token:
  "credentials_token rt (config_literal d t) = Inr (Some (JStr t))"
  by (simp add: credentials_token_def config_literal_def)

lemma loadConfig_token:
  assumes "snd (loadConfig rt w) = Inr config"
  shows "\<exists>tok. credentials_token rt config = Inr tok \<and> truthy tok"
  using assms load_config_file_token [of rt w config]
  by (auto simp: loadConfig_def config_literal_token split: option.splits if_splits)

lemma load_config_file_no_service:
  "NewTPService c \<notin> set (fst (load_config_file rt w))"
  by (simp add: load_config_file_def Let_def split: sum.splits)

lemma loadConfig_no_service:
  "NewTPService c \<notin> set (fst (loadConfig rt w))"
  by (simp add: loadConfig_def load_config_file_no_service split: option.splits)

lemma constructor_service:
  assumes "NewTPService config \<in> set (fst (constructor rt w new_TPService))"
  shows "snd (loadConfig rt w) = Inr config"
  using assms loadConfig_no_service [of config rt w]
  by (cases "loadConfig rt w") (auto simp: constructor_def split: sum.splits)

lemma constructor_failure:
  assumes "snd (loadConfig rt w) = Inl e"
  shows "constructor rt w new_TPService = (fst (loadConfig rt w), Inl e)"
  using assms by (cases "loadConfig rt w") (simp add: constructor_def)

lemma loadConfig_p0_result:
  assumes "loadConfig_p0 e = Inr config"
  shows "\<exists>d t. d \<noteq> [] \<and> t \<noteq> [] \<and> config = config_literal d t"
  using assms by (auto simp: loadConfig_p0_def split: option.splits if_splits)

text \<open>
  Claim C5, amended. Whenever the backend service handle is constructed, the
  configuration passed to it has a \<open>credentials.token\<close> that is present and truthy (for a
  string: non-empty). On the environment path, of either source file, the configuration
  is \<open>{ domain, credentials: { token } }\<close> with two non-empty strings. On the file path
  of src/server.ts the token is the only field checked. Whenever \<open>loadConfig\<close> throws, the
  constructor throws the same failure and no handle is constructed.
\<close>

theorem service_handle_configuration:
  fixes w :: "'v world"
  shows "(NewTPService config \<in> set (fst (constructor rt w new_TPService)) \<longrightarrow>
            (\<exists>tok. credentials_token rt config = Inr tok \<and> truthy tok))
       \<and> (env w ''TP_DOMAIN'' = Some d \<and> env w ''TP_TOKEN'' = Some t \<and> d \<noteq> [] \<and> t \<noteq> [] \<longrightarrow>
            fst (constructor rt w new_TPService) =
              [NewTPService (JObj [(''domain'', JStr d), (''credentials'', JObj [(''token'', JStr t)])])])
       \<and> (NewTPService config \<in> set (fst (constructor_p0 w new_TPService)) \<longrightarrow>
            (\<exists>d t. d \<noteq> [] \<and> t \<noteq> [] \<and>
               config = JObj [(''domain'', JStr d), (''credentials'', JObj [(''token'', JStr t)])]))
       \<and> (snd (loadConfig rt w) = Inl e \<longrightarrow>
            snd (constructor rt w new_TPService) = Inl e
            \<and> (\<forall>c. NewTPService c \<notin> set (fst (constructor rt w new_TPService))))
       \<and> ((loadConfig_p0 (env w) :: 'v thrown + json) = Inl e \<longrightarrow>
            constructor_p0 w new_TPService = ([], Inl e))"
proof -
  have a: "NewTPService config \<in> set (fst (constructor rt w new_TPService)) \<longrightarrow>
      (\<exists>tok. credentials_token rt config = Inr tok \<and> truthy tok)"
    using constructor_service [of config rt w new_TPService] loadConfig_token [of rt w config]
    by blast
  have b: "env w ''TP_DOMAIN'' = Some d \<and> env w ''TP_TOKEN'' = Some t \<and> d \<noteq> [] \<and> t \<noteq> [] \<longrightarrow>
      fst (constructor rt w new_TPService) =
        [NewTPService (JObj [(''domain'', JStr d), (''credentials'', JObj [(''token'', JStr t)])])]"
    by (simp add: constructor_def loadConfig_environment config_literal_def)
  have c: "NewTPService config \<in> set (fst (constructor_p0 w new_TPService)) \<longrightarrow>
      (\<exists>d t. d \<noteq> [] \<and> t \<noteq> [] \<and>
         config = JObj [(''domain'', JStr d), (''credentials'', JObj [(''token'', JStr t)])])"
    using loadConfig_p0_result [of "env w" config, where ?'a = 'v]
    by (auto simp: constructor_p0_def config_literal_def split: sum.splits)
  have d: "snd (loadConfig rt w) = Inl e \<longrightarrow>
      snd (constructor rt w new_TPService) = Inl e
      \<and> (\<forall>c. NewTPService c \<notin> set (fst (constructor rt w new_TPService)))"
    using loadConfig_no_service [of _ rt w]
    by (auto simp: constructor_failure)
  have e: "(loadConfig_p0 (env w) :: 'v thrown + json) = Inl e \<longrightarrow>
      constructor_p0 w new_TPService = ([], Inl e)"
    by (simp add: constructor_p0_def)
  from a b c d e show ?thesis by blast
qed

theorem service_handle_configuration_witness:
  \<open>NewTPService (JObj [(''credentials'', JObj [(''token'', JStr ''abc'')])])
     \<in> set (fst (constructor example_runtime
                   (example_world Map.empty (Some ''{"credentials":{"token":"abc"}}''))
                   (\<lambda>config. config)))
   \<and> (\<exists>tok. credentials_token example_runtime
              (JObj [(''credentials'', JObj [(''token'', JStr ''abc'')])]) = Inr tok
            \<and> truthy tok)\<close>
proof -
  have m: \<open>NewTPService (JObj [(''credentials'', JObj [(''token'', JStr ''abc'')])])
     \<in> set (fst (constructor example_runtime
                   (example_world Map.empty (Some ''{"credentials":{"token":"abc"}}''))
                   (\<lambda>config. config)))\<close>
    by (simp add: constructor_def loadConfig_def load_config_file_def read_config_def
        configPath_def credentials_token_def Let_def example_runtime_def example_world_def
        example_parse_def)
  from service_handle_configuration
         [where rt = example_runtime and new_TPService = "\<lambda>config. config"
            and config = "JObj [(''credentials'', JObj [(''token'', JStr ''abc'')])]"] m
  show ?thesis by blast
qed

text \<open>
  Claim C5 as stated fails on the file path of src/server.ts: with no environment
  variable set and a file that holds a token and no domain, the handle is constructed
  with a configuration that has no domain.
\<close>

theorem handle_constructed_without_domain:
  \<open>constructor example_runtime
     (example_world Map.empty (Some ''{"credentials":{"token":"abc"}}'')) (\<lambda>config. config) =
     ([FsExistsSync ''/app/config/targetprocess.json'',
       FsReadFileSync ''/app/config/targetprocess.json'',
       NewTPService (JObj [(''credentials'', JObj [(''token'', JStr ''abc'')])])],
      Inr (JObj [(''credentials'', JObj [(''token'', JStr ''abc'')])]))
   \<and> get_property (JObj [(''credentials'', JObj [(''token'', JStr ''abc'')])]) ''domain'' = None\<close>
  by (simp add: constructor_def loadConfig_def load_config_file_def read_config_def
      configPath_def credentials_token_def Let_def example_runtime_def example_world_def
      example_parse_def)

section \<open>A file without a token\<close>










end
